theory Spec2Isabelle
  imports Complex_Main
begin

section \<open>Number guessing game: the engine of mygameflask.py\<close>

text \<open>
  A shallow embedding of class \<open>GameEngine\<close>. The engine's three dictionaries
  (\<open>sessions\<close>, \<open>stats\<close>, \<open>achievements\<close>) are maps keyed by the player name; every
  method takes the engine and returns its result with the updated engine. The
  persistence calls (\<open>_save_stats\<close>, \<open>_persist_player_stats\<close>, ...) write the in-memory
  dictionaries out and leave them as they are, so they do not appear.

  Clock readings and random draws are inputs, collected in the record \<open>env\<close>: one field
  for each call of \<open>time.time()\<close>, \<open>datetime.utcnow()\<close> and \<open>random\<close> that a method makes.
  Times and the difficulty bonus are Python floats in the source and rationals here.
\<close>

subsection \<open>Data\<close>

record player_stats =
  games_played :: int
  games_won :: int
  total_attempts :: int
  best_score :: int
  total_score :: int

record round_state =
  secret_number :: int
  attempts :: int
  start_time :: rat
  round_time_limit :: "int option"
  closest_distance :: int
  double_score :: bool
  extra_hints :: int
  powerup_used :: "string option"
  active :: bool
  round_num :: int
  offered_powerup :: "string option"

record session =
  player :: string
  max_number :: int
  difficulty_bonus :: rat
  rounds_total :: int
  rounds_played :: int
  round_scores :: "int list"
  active_round :: "round_state option"
  mode :: string
  time_limit :: "int option"
  created_at :: rat
  powerups :: "string list"
  session_id :: "string \<times> int \<times> int"

record engine =
  sessions :: "string \<rightharpoonup> session"
  stats :: "string \<rightharpoonup> player_stats"
  achievements :: "string \<rightharpoonup> string list"

record env =
  clock_created :: rat
  clock_id :: rat
  rand_id :: int
  clock_round :: rat
  rand_secret :: int
  rand_offer :: "string option"
  clock_check :: rat
  clock_solved :: rat

text \<open>
  \<open>clock_created\<close> and \<open>clock_id\<close> are the two clock readings of \<open>start_game\<close> and
  \<open>rand_id\<close> its \<open>random.randint(1, 9999)\<close>; \<open>clock_round\<close>, \<open>rand_secret\<close> and
  \<open>rand_offer\<close> are the reading, the \<open>random.randint(1, max_number)\<close> and the power-up
  drawn (if \<open>random.random() < 0.2\<close>) in \<open>start_round\<close>; \<open>clock_check\<close> is the reading
  of the time check and \<open>clock_solved\<close> the one after a correct guess in \<open>make_guess\<close>.
\<close>

datatype error =
  NoActiveSession
  | RoundFinished
  | GuessNotInteger
  | GuessOutOfRange int

text \<open>The outcome of Python's \<open>int(guess)\<close> on the value received: it raises or gives an integer.\<close>

datatype guess_value = NotConvertible | Converts int

datatype guess_result =
  Failed error
  | Timeout int
  | Correct int int rat "(string \<times> string) list"
  | TooLow int "string list"
  | TooHigh int "string list"

text \<open>
  \<open>Timeout n\<close>: the message reveals the secret \<open>n\<close>. \<open>Correct score attempts time new\<close>
  and \<open>TooLow attempts hints\<close>, \<open>TooHigh attempts hints\<close> carry the fields of the
  dictionaries the source returns.
\<close>

subsection \<open>Python primitives\<close>

text \<open>\<open>int(x)\<close> on a float rounds towards zero.\<close>

definition py_int :: "rat \<Rightarrow> int" where
  "py_int x = (if 0 \<le> x then \<lfloor>x\<rfloor> else \<lceil>x\<rceil>)"

text \<open>Truth value of an optional string (\<open>None\<close> and the empty string are false).\<close>

definition truthy_str :: "string option \<Rightarrow> bool" where
  "truthy_str v = (case v of None \<Rightarrow> False | Some s \<Rightarrow> s \<noteq> [])"

subsection \<open>Player statistics\<close>

definition new_stats :: player_stats where
  "new_stats = \<lparr>games_played = 0, games_won = 0, total_attempts = 0,
                best_score = 0, total_score = 0\<rparr>"

definition ensure_player_stats :: "string \<Rightarrow> engine \<Rightarrow> engine" where
  "ensure_player_stats p e =
     (case stats e p of
        None \<Rightarrow> e\<lparr>stats := (stats e)(p \<mapsto> new_stats)\<rparr>
      | Some _ \<Rightarrow> e)"

text \<open>The update of one player's record in \<open>update_player_stats\<close>.\<close>

definition bump_stats :: "int \<Rightarrow> bool \<Rightarrow> int \<Rightarrow> player_stats \<Rightarrow> player_stats" where
  "bump_stats att won score st =
     (let st1 = st\<lparr>games_played := games_played st + 1,
                    total_attempts := total_attempts st + att,
                    total_score := total_score st + score\<rparr>
      in if won
         then (let st2 = st1\<lparr>games_won := games_won st1 + 1\<rparr>
               in if score > best_score st2 then st2\<lparr>best_score := score\<rparr> else st2)
         else st1)"

definition update_player_stats :: "string \<Rightarrow> int \<Rightarrow> bool \<Rightarrow> int \<Rightarrow> engine \<Rightarrow> engine" where
  "update_player_stats p att won score e =
     (let e1 = ensure_player_stats p e
      in case stats e1 p of
           None \<Rightarrow> e1
         | Some st \<Rightarrow> e1\<lparr>stats := (stats e1)(p \<mapsto> bump_stats att won score st)\<rparr>)"

subsection \<open>Achievements\<close>

text \<open>
  A rule is (name, description, condition). A condition that raises (the player has no
  statistics record: \<open>KeyError\<close>) is \<open>None\<close>. The names are the source's without their
  leading pictograph.
\<close>

type_synonym rule = "string \<times> string \<times> (engine \<Rightarrow> bool option)"

definition achievement_list :: "string \<Rightarrow> int \<Rightarrow> int \<Rightarrow> rat \<Rightarrow> rule list" where
  "achievement_list p att score time_taken =
     [(''First Blood'', ''Win your first game'',
         \<lambda>e. map_option (\<lambda>st. games_won st = 1) (stats e p)),
      (''Speed Demon'', ''Win in under 10 seconds'', \<lambda>e. Some (time_taken < 10)),
      (''Mind Reader'', ''Guess correctly in 1 attempt'', \<lambda>e. Some (att = 1)),
      (''Perfectionist'', ''Score over 150 points'', \<lambda>e. Some (score > 150)),
      (''Champion'', ''Win 10 games'',
         \<lambda>e. map_option (\<lambda>st. games_won st \<ge> 10) (stats e p)),
      (''Lightning Fast'', ''Win in under 5 attempts'', \<lambda>e. Some (att \<le> 5)),
      (''Show Off'', ''Score over 200 points'', \<lambda>e. Some (score > 200))]"

definition player_achievements :: "engine \<Rightarrow> string \<Rightarrow> string list" where
  "player_achievements e p = (case achievements e p of None \<Rightarrow> [] | Some l \<Rightarrow> l)"

text \<open>The \<open>for\<close> loop of \<open>check_achievements\<close>, over any rule list.\<close>

fun check_loop ::
  "string \<Rightarrow> rule list \<Rightarrow> engine \<Rightarrow> (string \<times> string) list
     \<Rightarrow> (string \<times> string) list \<times> engine" where
  "check_loop p [] e new = (new, e)"
| "check_loop p ((name, desc, condition) # rs) e new =
     (if name \<notin> set (player_achievements e p)
      then (case condition e of
              Some True \<Rightarrow>
                check_loop p rs
                  (e\<lparr>achievements := (achievements e)(p \<mapsto> player_achievements e p @ [name])\<rparr>)
                  (new @ [(name, desc)])
            | _ \<Rightarrow> check_loop p rs e new)
      else check_loop p rs e new)"

definition check_rules :: "string \<Rightarrow> rule list \<Rightarrow> engine \<Rightarrow> (string \<times> string) list \<times> engine" where
  "check_rules p rules e =
     (let e0 = (if achievements e p = None then e\<lparr>achievements := (achievements e)(p \<mapsto> [])\<rparr>
                else e)
      in check_loop p rules e0 [])"

definition check_achievements ::
  "string \<Rightarrow> int \<Rightarrow> int \<Rightarrow> rat \<Rightarrow> engine \<Rightarrow> (string \<times> string) list \<times> engine" where
  "check_achievements p att score time_taken e =
     check_rules p (achievement_list p att score time_taken) e"

subsection \<open>Sessions and rounds\<close>

text \<open>
  \<open>_resolve_difficulty\<close>: the choice is the string \<open>str(choice)\<close>; \<open>custom_max\<close> is an
  optional integer (absent or \<open>null\<close> is \<open>None\<close>).
\<close>

definition resolve_difficulty :: "string \<Rightarrow> int option \<Rightarrow> int \<times> rat" where
  "resolve_difficulty choice custom_max =
     (if choice = ''1'' then (50, 1)
      else if choice = ''2'' then (100, 3 / 2)
      else if choice = ''3'' then (500, 2)
      else if choice = ''4'' then (1000, 3)
      else if choice = ''5'' then
        ((case custom_max of
            None \<Rightarrow> 100
          | Some c \<Rightarrow> if c \<noteq> 0 \<and> c > 0 then c else 100), 1)
      else (100, 1))"

definition start_game ::
  "env \<Rightarrow> string \<Rightarrow> string \<Rightarrow> string \<Rightarrow> int option \<Rightarrow> engine \<Rightarrow> session \<times> engine" where
  "start_game ev p md difficulty custom_max e =
     (let (mx, bonus) = resolve_difficulty difficulty custom_max;
          rounds = (if md = ''2'' then 3 else 1);
          tl = (if md = ''3'' then Some 60 else None);
          s = \<lparr>player = p, max_number = mx, difficulty_bonus = bonus,
               rounds_total = rounds, rounds_played = 0, round_scores = [],
               active_round = None, mode = md, time_limit = tl,
               created_at = clock_created ev, powerups = [],
               session_id = (p, py_int (clock_id ev), rand_id ev)\<rparr>
      in (s, e\<lparr>sessions := (sessions e)(p \<mapsto> s)\<rparr>))"

text \<open>
  The session after \<open>start_round\<close> has run on it, and the round it created. The secret
  is the draw \<open>random.randint(1, max_number)\<close>, which raises only for a \<open>max_number\<close>
  below 1; no session has one (lemma \<open>reachable_setup\<close> below).
\<close>

definition new_round :: "env \<Rightarrow> session \<Rightarrow> round_state" where
  "new_round ev s =
     \<lparr>secret_number = rand_secret ev, attempts = 0, start_time = clock_round ev,
      round_time_limit = time_limit s, closest_distance = max_number s,
      double_score = False, extra_hints = 1, powerup_used = None, active = True,
      round_num = rounds_played s + 1, offered_powerup = rand_offer ev\<rparr>"

definition begin_round :: "env \<Rightarrow> session \<Rightarrow> session" where
  "begin_round ev s =
     s\<lparr>rounds_played := rounds_played s + 1, active_round := Some (new_round ev s)\<rparr>"

definition start_round :: "env \<Rightarrow> string \<Rightarrow> engine \<Rightarrow> (error + round_state) \<times> engine" where
  "start_round ev p e =
     (case sessions e p of
        None \<Rightarrow> (Inl NoActiveSession, e)
      | Some s \<Rightarrow> (Inr (new_round ev s), e\<lparr>sessions := (sessions e)(p \<mapsto> begin_round ev s)\<rparr>))"

text \<open>
  \<open>get_hint\<close>. The loop over the divisors 3, 5, 7 stops at the first one that divides
  the secret; each divisor comes with its decimal text for the message.
\<close>

fun divisor_hint :: "int \<Rightarrow> (int \<times> string) list \<Rightarrow> string list" where
  "divisor_hint n [] = []"
| "divisor_hint n ((divisor, txt) # ds) =
     (if n mod divisor = 0 then [''The number is divisible by '' @ txt]
      else divisor_hint n ds)"

definition parity_hint :: "int \<Rightarrow> string" where
  "parity_hint n = ''The number is '' @ (if n mod 2 = 0 then ''even'' else ''odd'')"

definition quarter_hint :: "int \<Rightarrow> int \<Rightarrow> string" where
  "quarter_hint n mx =
     (if n \<le> mx div 4 then ''The number is in the first quarter of the range''
      else if n \<le> mx div 2 then ''The number is in the second quarter of the range''
      else if n \<le> (3 * mx) div 4 then ''The number is in the third quarter of the range''
      else ''The number is in the fourth quarter of the range'')"

definition get_hint :: "int \<Rightarrow> int \<Rightarrow> int \<Rightarrow> string list" where
  "get_hint secret mx att =
     (if att \<ge> 3 then [parity_hint secret] else [])
     @ (if att \<ge> 5 then [quarter_hint secret mx] else [])
     @ (if att \<ge> 7 then divisor_hint secret [(3, ''3''), (5, ''5''), (7, ''7'')] else [])"

text \<open>The score of a solved round (\<open>make_guess\<close>, the branch \<open>guess == secret_number\<close>).\<close>

definition round_score :: "session \<Rightarrow> round_state \<Rightarrow> rat \<Rightarrow> int" where
  "round_score s rnd elapsed_time =
     (let base_score = max 0 (100 - attempts rnd);
          time_bonus = (if elapsed_time < 50 then max 0 (50 - py_int elapsed_time) else 0);
          proximity_bonus =
            (if closest_distance rnd < 20 then max 0 (20 - closest_distance rnd) else 0);
          difficulty_score = py_int (of_int base_score * difficulty_bonus s);
          power_up_bonus = (if truthy_str (powerup_used rnd) then 25 else 0);
          total_score = difficulty_score + time_bonus + proximity_bonus + power_up_bonus
      in if double_score rnd then total_score * 2 else total_score)"

text \<open>The hint of a wrong guess: the texts returned and the round with its budget updated.\<close>

definition give_hint :: "session \<Rightarrow> round_state \<Rightarrow> string list \<times> round_state" where
  "give_hint s rnd =
     (if attempts rnd \<ge> (if extra_hints rnd > 1 then 2 else 3) \<and> extra_hints rnd > 0
      then (case get_hint (secret_number rnd) (max_number s) (attempts rnd) of
              [] \<Rightarrow> ([], rnd)
            | hint # _ \<Rightarrow> ([hint], rnd\<lparr>extra_hints := extra_hints rnd - 1\<rparr>))
      else ([], rnd))"

text \<open>The time check: a limit that is set (not \<open>None\<close>, not 0) and exceeded.\<close>

definition over_limit :: "int option \<Rightarrow> rat \<Rightarrow> bool" where
  "over_limit limit elapsed =
     (case limit of None \<Rightarrow> False | Some n \<Rightarrow> n \<noteq> 0 \<and> elapsed > of_int n)"

definition put_session :: "string \<Rightarrow> session \<Rightarrow> engine \<Rightarrow> engine" where
  "put_session p s e = e\<lparr>sessions := (sessions e)(p \<mapsto> s)\<rparr>"

text \<open>
  \<open>make_guess\<close> from the point where the session \<open>s\<close> and its round \<open>rnd\<close> are at hand.
  The source mutates the round inside the session inside \<open>self.sessions\<close>; here each
  change is written back with \<open>put_session\<close>.
\<close>

definition play_round ::
  "env \<Rightarrow> string \<Rightarrow> guess_value \<Rightarrow> session \<Rightarrow> round_state \<Rightarrow> engine
     \<Rightarrow> guess_result \<times> engine" where
  "play_round ev p guess s rnd e =
     (if \<not> active rnd then (Failed RoundFinished, e)
      else if over_limit (round_time_limit rnd) (clock_check ev - start_time rnd)
      then (let rnd' = rnd\<lparr>active := False\<rparr>;
                s' = s\<lparr>active_round := Some rnd', round_scores := round_scores s @ [0]\<rparr>
            in (Timeout (secret_number rnd),
                update_player_stats p (attempts rnd) False 0 (put_session p s' e)))
      else (case guess of
              NotConvertible \<Rightarrow> (Failed GuessNotInteger, e)
            | Converts g \<Rightarrow>
                if g < 1 \<or> g > max_number s then (Failed (GuessOutOfRange (max_number s)), e)
                else
                  (let rnd1 = rnd\<lparr>attempts := attempts rnd + 1\<rparr>;
                       current_distance = \<bar>g - secret_number rnd1\<bar>;
                       rnd2 = (if current_distance < closest_distance rnd1
                               then rnd1\<lparr>closest_distance := current_distance\<rparr> else rnd1)
                   in if g = secret_number rnd2
                      then (let rnd3 = rnd2\<lparr>active := False\<rparr>;
                                elapsed_time = clock_solved ev - start_time rnd3;
                                total_score = round_score s rnd3 elapsed_time;
                                s' = s\<lparr>active_round := Some rnd3,
                                       round_scores := round_scores s @ [total_score]\<rparr>;
                                e1 = update_player_stats p (attempts rnd3) True total_score
                                       (put_session p s' e);
                                (new_achs, e2) =
                                  check_achievements p (attempts rnd3) total_score elapsed_time e1
                            in (Correct total_score (attempts rnd3) elapsed_time new_achs, e2))
                      else (let (hint_texts, rnd3) = give_hint s rnd2;
                                e1 = put_session p (s\<lparr>active_round := Some rnd3\<rparr>) e
                            in if g < secret_number rnd3
                               then (TooLow (attempts rnd3) hint_texts, e1)
                               else (TooHigh (attempts rnd3) hint_texts, e1)))))"

definition make_guess :: "env \<Rightarrow> string \<Rightarrow> guess_value \<Rightarrow> engine \<Rightarrow> guess_result \<times> engine" where
  "make_guess ev p guess e =
     (case sessions e p of
        None \<Rightarrow> (Failed NoActiveSession, e)
      | Some s \<Rightarrow>
          (case active_round s of
             None \<Rightarrow>
               play_round ev p guess (begin_round ev s) (new_round ev s)
                 (put_session p (begin_round ev s) e)
           | Some rnd \<Rightarrow> play_round ev p guess s rnd e))"

text \<open>\<open>end_session\<close> returns the total and the list of round scores.\<close>

definition end_session :: "string \<Rightarrow> engine \<Rightarrow> (error + int \<times> int list) \<times> engine" where
  "end_session p e =
     (case sessions e p of
        None \<Rightarrow> (Inl NoActiveSession, e)
      | Some s \<Rightarrow>
          (Inr (sum_list (round_scores s), round_scores s),
           e\<lparr>sessions := (sessions e)(p := None)\<rparr>))"

subsection \<open>The HTTP routes that change the engine\<close>

text \<open>
  The player of a request is a string, empty when the field is missing; mode and
  difficulty are optional with the defaults \<open>'1'\<close> and \<open>'2'\<close>; a missing or \<open>null\<close> guess
  is \<open>None\<close>.
\<close>

datatype route_error = PlayerRequired | GuessRequired

definition start_route ::
  "env \<Rightarrow> string \<Rightarrow> string option \<Rightarrow> string option \<Rightarrow> int option \<Rightarrow> engine
     \<Rightarrow> (route_error + session) \<times> engine" where
  "start_route ev p md difficulty custom_max e =
     (if p = [] then (Inl PlayerRequired, e)
      else (let (s, e1) = start_game ev p (case md of None \<Rightarrow> ''1'' | Some m \<Rightarrow> m)
                            (case difficulty of None \<Rightarrow> ''2'' | Some d \<Rightarrow> d) custom_max e;
                e2 = snd (start_round ev p e1)
            in (Inr (begin_round ev s), e2)))"





subsection \<open>Sequences of rounds of one player\<close>

text \<open>
  A finished round reaches the statistics as one call
  \<open>update_player_stats(player, attempts, won, score)\<close>; a sequence of rounds is the
  sequence of these calls.
\<close>

fun record_rounds :: "string \<Rightarrow> (int \<times> bool \<times> int) list \<Rightarrow> engine \<Rightarrow> engine" where
  "record_rounds p [] e = e"
| "record_rounds p ((att, won, score) # rs) e =
     record_rounds p rs (update_player_stats p att won score e)"

text \<open>The best score on record; a player not yet on record starts from 0.\<close>

definition best_of :: "engine \<Rightarrow> string \<Rightarrow> int" where
  "best_of e p = (case stats e p of None \<Rightarrow> 0 | Some st \<Rightarrow> best_score st)"

definition winning_scores :: "(int \<times> bool \<times> int) list \<Rightarrow> int list" where
  "winning_scores rs = map (\<lambda>(att, won, score). score) (filter (\<lambda>(att, won, score). won) rs)"

subsection \<open>Concrete inputs\<close>

definition env0 :: env where
  "env0 = \<lparr>clock_created = 1000, clock_id = 1000, rand_id = 42, clock_round = 1000,
           rand_secret = 25, rand_offer = None, clock_check = 1003, clock_solved = 2007 / 2\<rparr>"

text \<open>The same draws, read 61 seconds after the round began.\<close>

definition env_late :: env where
  "env_late = env0\<lparr>clock_check := 1061, clock_solved := 1061\<rparr>"

definition engine0 :: engine where
  "engine0 = \<lparr>sessions = Map.empty, stats = Map.empty, achievements = Map.empty\<rparr>"

text \<open>
  After \<open>/start\<close> for alice: an untimed session on 1..50 and a timed one on 1..100,
  each with its first round begun and the secret 25.
\<close>

definition engine_plain :: engine where
  "engine_plain = snd (start_route env0 ''alice'' (Some ''1'') (Some ''1'') None engine0)"

definition engine_timed :: engine where
  "engine_timed = snd (start_route env0 ''alice'' (Some ''3'') (Some ''2'') None engine0)"

text \<open>A session of alice with the two round scores 80 and 95 on record.\<close>

definition engine_two_rounds :: engine where
  "engine_two_rounds =
     engine0\<lparr>sessions := [''alice'' \<mapsto>
        (fst (start_game env0 ''alice'' ''2'' ''1'' None engine0))\<lparr>round_scores := [80, 95]\<rparr>]\<rparr>"

text \<open>An engine where alice holds one achievement and has no statistics record.\<close>

definition engine_speedy :: engine where
  "engine_speedy = engine0\<lparr>achievements := [''alice'' \<mapsto> [''Speed Demon'']]\<rparr>"


subsection \<open>Notions used in the statements\<close>


text \<open>
  The rules of a list, in its order, that a player holding \<open>old\<close> does not hold yet and
  whose condition holds on the engine \<open>e\<close>.
\<close>

definition unlocked_by :: "rule list \<Rightarrow> engine \<Rightarrow> string list \<Rightarrow> (string \<times> string) list" where
  "unlocked_by rules e old =
     map (\<lambda>(name, desc, condition). (name, desc))
       (filter (\<lambda>(name, desc, condition). name \<notin> set old \<and> condition e = Some True) rules)"

section \<open>What the methods leave alone\<close>

lemma sessions_update_player_stats [simp]:
  "sessions (update_player_stats p att won score e) = sessions e"
  by (simp add: update_player_stats_def ensure_player_stats_def Let_def split: option.splits)

lemma achievements_update_player_stats [simp]:
  "achievements (update_player_stats p att won score e) = achievements e"
  by (simp add: update_player_stats_def ensure_player_stats_def Let_def split: option.splits)

lemma check_loop_frame:
  "sessions (snd (check_loop p rs e new)) = sessions e
   \<and> stats (snd (check_loop p rs e new)) = stats e"
  by (induction p rs e new rule: check_loop.induct) (auto split: option.splits bool.splits)

lemma check_achievements_frame [simp]:
  "sessions (snd (check_achievements p att score t e)) = sessions e"
  "stats (snd (check_achievements p att score t e)) = stats e"
  by (simp_all add: check_achievements_def check_rules_def Let_def check_loop_frame)





section \<open>The difficulty table\<close>





section \<open>Concrete states and reachability\<close>


lemma timed_session:
  "sessions engine_timed ''alice'' = Some
     \<lparr>player = ''alice'', max_number = 100, difficulty_bonus = 3 / 2, rounds_total = 1,
      rounds_played = 1, round_scores = [],
      active_round = Some \<lparr>secret_number = 25, attempts = 0, start_time = 1000,
         round_time_limit = Some 60, closest_distance = 100, double_score = False,
         extra_hints = 1, powerup_used = None, active = True, round_num = 1,
         offered_powerup = None\<rparr>,
      mode = ''3'', time_limit = Some 60, created_at = 1000, powerups = [],
      session_id = (''alice'', 1000, 42)\<rparr>"
  by (simp add: engine_timed_def start_route_def start_game_def start_round_def
        resolve_difficulty_def begin_round_def new_round_def env0_def engine0_def py_int_def
        Let_def case_prod_beta)






section \<open>Guessing on an active round\<close>

lemma make_guess_active:
  "sessions e p = Some s \<Longrightarrow> active_round s = Some rnd \<Longrightarrow>
     make_guess ev p g e = play_round ev p g s rnd e"
  by (simp add: make_guess_def)


section \<open>Ending a session\<close>

text \<open>
  Claim C9. For a player with a session, \<open>end_session\<close> returns the sum of the recorded
  round scores (with the scores) and removes the session, leaving the other players'
  sessions, the statistics and the achievements as they were; a guess or a second
  \<open>end_session\<close> for that player then fails with the no-active-session error and changes
  nothing. For a player with no session \<open>end_session\<close> fails with that error.
\<close>

theorem end_session_total:
  "(\<forall>s. sessions e p = Some s \<longrightarrow>
       fst (end_session p e) = Inr (sum_list (round_scores s), round_scores s)
     \<and> sessions (snd (end_session p e)) p = None
     \<and> (\<forall>q. q \<noteq> p \<longrightarrow> sessions (snd (end_session p e)) q = sessions e q)
     \<and> stats (snd (end_session p e)) = stats e
     \<and> achievements (snd (end_session p e)) = achievements e
     \<and> make_guess ev p g (snd (end_session p e)) = (Failed NoActiveSession, snd (end_session p e))
     \<and> end_session p (snd (end_session p e)) = (Inl NoActiveSession, snd (end_session p e)))
   \<and> (sessions e p = None \<longrightarrow> end_session p e = (Inl NoActiveSession, e))"
  by (auto simp: end_session_def make_guess_def)

theorem end_session_total_witness:
  "fst (end_session ''alice'' engine_two_rounds) = Inr (175, [80, 95])
   \<and> fst (make_guess env0 ''alice'' (Converts 25) (snd (end_session ''alice'' engine_two_rounds)))
       = Failed NoActiveSession
   \<and> fst (end_session ''alice'' (snd (end_session ''alice'' engine_two_rounds)))
       = Inl NoActiveSession
   \<and> fst (end_session ''bob'' engine_two_rounds) = Inl NoActiveSession"
  using end_session_total [of engine_two_rounds "''alice''" env0 "Converts 25"]
     end_session_total [of engine_two_rounds "''bob''" env0 "Converts 25"]
  by (simp add: engine_two_rounds_def engine0_def start_game_def resolve_difficulty_def Let_def)

section \<open>Best score\<close>

lemma best_of_update:
  "best_of (update_player_stats p att won score e) p =
     (if won then max (best_of e p) score else best_of e p)"
  by (auto simp: best_of_def update_player_stats_def ensure_player_stats_def bump_stats_def
        new_stats_def Let_def split: option.splits)

lemma best_of_update_other:
  "q \<noteq> p \<Longrightarrow> best_of (update_player_stats p att won score e) q = best_of e q"
  by (auto simp: best_of_def update_player_stats_def ensure_player_stats_def Let_def split: option.splits)

lemma best_of_record_rounds:
  "best_of (record_rounds p rs e) p = fold max (winning_scores rs) (best_of e p)"
  by (induction p rs e rule: record_rounds.induct)
     (simp_all add: winning_scores_def best_of_update max.commute)

lemma fold_max_ge: "(b::int) \<le> fold max xs b"
proof (induction xs arbitrary: b)
  case Nil show ?case by simp
next
  case (Cons x xs)
  have "b \<le> max x b" by simp
  also have "\<dots> \<le> fold max xs (max x b)" by (rule Cons.IH)
  finally show ?case by simp
qed

lemma fold_max_Max: "fold max xs (b::int) = Max (insert b (set xs))"
proof (induction xs arbitrary: b)
  case Nil show ?case by simp
next
  case (Cons x xs)
  have "fold max (x # xs) b = Max (insert (max x b) (set xs))" by (simp add: Cons.IH)
  also have "\<dots> = Max (insert b (set (x # xs)))"
    by (cases "set xs = {}") (auto simp: max.commute max.left_commute max.assoc)
  finally show ?case .
qed

lemma record_rounds_append:
  "record_rounds p (rs @ rs') e = record_rounds p rs' (record_rounds p rs e)"
  by (induction p rs e rule: record_rounds.induct) simp_all


lemma best_of_stats: "stats e' = stats e \<Longrightarrow> best_of e' q = best_of e q"
  by (simp add: best_of_def)

lemma best_of_update_le: "best_of e q \<le> best_of (update_player_stats p att won score e) q"
  by (cases "q = p") (simp_all add: best_of_update best_of_update_other)

lemma best_of_play_round: "best_of e q \<le> best_of (snd (play_round ev p g s rnd e)) q"
proof -
  have put: "best_of (put_session p s' e) q = best_of e q" for s'
    by (simp add: best_of_def put_session_def)
  have upd: "best_of e q \<le> best_of (update_player_stats p a w sc (put_session p s' e)) q"
    for a w sc s'
    using best_of_update_le [of "put_session p s' e" q p a w sc] by (simp add: put)
  have chk: "best_of (snd (check_achievements p a sc t e')) q = best_of e' q" for a sc t e'
    by (rule best_of_stats) simp
  show ?thesis
    unfolding play_round_def
    by (simp add: Let_def case_prod_beta put upd chk split: guess_value.splits)
qed

lemma best_of_make_guess: "best_of e q \<le> best_of (snd (make_guess ev p g e)) q"
proof -
  have put: "best_of (put_session p s' e) q = best_of e q" for s'
    by (simp add: best_of_def put_session_def)
  show ?thesis
    unfolding make_guess_def
    using best_of_play_round [of e q] best_of_play_round [of "put_session p s' e" q for s']
    by (auto simp: put split: option.splits)
qed

text \<open>
  Claim C7. After any sequence of rounds of a player, \<open>best_score\<close> is the maximum of
  the score on record before (0 for a new player) and the scores of the rounds of the
  sequence that were won; it never decreases when the sequence is extended; a lost round
  leaves it as it is and a won round raises it to the larger of the two; and no guess by
  any player lowers anybody's \<open>best_score\<close>.
\<close>

theorem best_score_running_max:
  "best_of (record_rounds p rs e) p = Max (insert (best_of e p) (set (winning_scores rs)))
   \<and> best_of (record_rounds p rs e) p \<le> best_of (record_rounds p (rs @ rs') e) p
   \<and> best_of (update_player_stats p att False score e) p = best_of e p
   \<and> best_of (update_player_stats p att True score e) p = max (best_of e p) score
   \<and> best_of e q \<le> best_of (snd (make_guess ev p g e)) q"
proof -
  have "best_of (record_rounds p (rs @ rs') e) p
        = fold max (winning_scores rs') (best_of (record_rounds p rs e) p)"
    by (simp add: record_rounds_append best_of_record_rounds)
  then have "best_of (record_rounds p rs e) p \<le> best_of (record_rounds p (rs @ rs') e) p"
    by (simp add: fold_max_ge)
  then show ?thesis
    by (simp add: best_of_record_rounds fold_max_Max best_of_update best_of_make_guess)
qed

theorem best_score_running_max_witness:
  "best_of (record_rounds ''alice'' [(3, True, 120), (5, False, 0), (2, True, 90)] engine0)
     ''alice'' = 120"
  using best_score_running_max [of "''alice''" "[(3, True, 120), (5, False, 0), (2, True, 90)]"
     engine0 "[]" 0 0 "''alice''" env0 NotConvertible]
  by (simp add: winning_scores_def best_of_def engine0_def)

section \<open>Timeout\<close>

text \<open>
  Claim C6. A guess (valid or not) on an active round whose time limit is set and
  exceeded at the time check returns the timeout outcome revealing the secret, marks
  the round inactive, appends the score 0 to the session's round scores and records a
  loss: one more game played, the round's attempts added, no win, and \<open>best_score\<close> and
  \<open>total_score\<close> as before. Every later guess of that player, at any time, is rejected
  with the round-finished error and changes nothing.
\<close>

theorem timeout_is_terminal:
  fixes ev p g e s rnd limit
  assumes "sessions e p = Some s" and "active_round s = Some rnd" and "active rnd"
    and "round_time_limit rnd = Some limit" and "limit \<noteq> 0"
    and "clock_check ev - start_time rnd > of_int limit"
  defines "e' \<equiv> snd (make_guess ev p g e)"
    and "st \<equiv> (case stats e p of None \<Rightarrow> new_stats | Some st \<Rightarrow> st)"
  shows "fst (make_guess ev p g e) = Timeout (secret_number rnd)
     \<and> sessions e' p = Some (s\<lparr>active_round := Some (rnd\<lparr>active := False\<rparr>),
                                round_scores := round_scores s @ [0]\<rparr>)
     \<and> stats e' p = Some (st\<lparr>games_played := games_played st + 1,
                               total_attempts := total_attempts st + attempts rnd\<rparr>)
     \<and> (\<forall>ev' g'. make_guess ev' p g' e' = (Failed RoundFinished, e'))"
proof -
  have over: "over_limit (round_time_limit rnd) (clock_check ev - start_time rnd)"
    using assms(4-6) by (simp add: over_limit_def)
  let ?s' = "s\<lparr>active_round := Some (rnd\<lparr>active := False\<rparr>), round_scores := round_scores s @ [0]\<rparr>"
  have mg: "make_guess ev p g e =
      (Timeout (secret_number rnd), update_player_stats p (attempts rnd) False 0 (put_session p ?s' e))"
    using assms(1-3) over by (simp add: make_guess_active play_round_def Let_def)
  have sess: "sessions e' p = Some ?s'"
    by (simp add: e'_def mg put_session_def)
  have stat: "stats e' p = Some (st\<lparr>games_played := games_played st + 1,
                               total_attempts := total_attempts st + attempts rnd\<rparr>)"
    by (simp add: e'_def mg st_def put_session_def update_player_stats_def
          ensure_player_stats_def bump_stats_def Let_def split: option.splits)
  have fin: "make_guess ev' p g' e' = (Failed RoundFinished, e')" for ev' g'
    using sess by (simp add: make_guess_def play_round_def)
  from mg sess stat fin show ?thesis by simp
qed

lemma stats_fresh:
  "stats engine_plain = Map.empty" "stats engine_timed = Map.empty"
  by (simp_all add: engine_plain_def engine_timed_def start_route_def start_game_def
        start_round_def engine0_def Let_def case_prod_beta split: option.splits)

theorem timeout_is_terminal_witness:
  "fst (make_guess env_late ''alice'' (Converts 30) engine_timed) = Timeout 25
   \<and> map_option round_scores
        (sessions (snd (make_guess env_late ''alice'' (Converts 30) engine_timed)) ''alice'')
       = Some [0]
   \<and> stats (snd (make_guess env_late ''alice'' (Converts 30) engine_timed)) ''alice''
       = Some \<lparr>games_played = 1, games_won = 0, total_attempts = 0, best_score = 0,
               total_score = 0\<rparr>
   \<and> fst (make_guess env0 ''alice'' (Converts 25)
            (snd (make_guess env_late ''alice'' (Converts 30) engine_timed)))
       = Failed RoundFinished"
  using timeout_is_terminal [where e = engine_timed and p = "''alice''" and ev = env_late
      and limit = 60 and g = "Converts 30", OF timed_session]
  by (simp add: env_late_def env0_def new_stats_def stats_fresh)

section \<open>Invalid guesses\<close>




section \<open>Achievements\<close>

lemma check_loop_spec:
  assumes "distinct (map fst rs)"
    and "\<forall>(name, desc, condition) \<in> set rs. \<forall>a. condition (e\<lparr>achievements := a\<rparr>) = condition e0"
    and "set (player_achievements e p) \<inter> fst ` set rs \<subseteq> set old"
    and "set old \<subseteq> set (player_achievements e p)"
  shows "fst (check_loop p rs e new) = new @ unlocked_by rs e0 old
       \<and> player_achievements (snd (check_loop p rs e new)) p
           = player_achievements e p @ map fst (unlocked_by rs e0 old)"
  using assms
proof (induction rs arbitrary: e new)
  case Nil
  show ?case by (simp add: unlocked_by_def)
next
  case (Cons r rs)
  obtain name desc condition where r: "r = (name, desc, condition)"
    by (cases r) auto
  have cond: "condition e = condition e0"
    using Cons.prems(2) r by (auto dest: spec [of _ "achievements e"])
  have rest: "\<forall>(name, desc, condition) \<in> set rs. \<forall>a. condition (e\<lparr>achievements := a\<rparr>) = condition e0"
    using Cons.prems(2) by auto
  have dist: "distinct (map fst rs)" "name \<notin> fst ` set rs"
    using Cons.prems(1) r by auto
  show ?case
  proof (cases "name \<notin> set (player_achievements e p) \<and> condition e = Some True")
    case True
    let ?e = "e\<lparr>achievements := (achievements e)(p \<mapsto> player_achievements e p @ [name])\<rparr>"
    have pa: "player_achievements ?e p = player_achievements e p @ [name]"
      by (simp add: player_achievements_def)
    have nold: "name \<notin> set old" using True Cons.prems(4) by auto
    have ih: "fst (check_loop p rs ?e (new @ [(name, desc)]))
                = (new @ [(name, desc)]) @ unlocked_by rs e0 old
       \<and> player_achievements (snd (check_loop p rs ?e (new @ [(name, desc)]))) p
           = player_achievements ?e p @ map fst (unlocked_by rs e0 old)"
    proof (rule Cons.IH)
      show "distinct (map fst rs)" by (rule dist)
      show "\<forall>(name, desc, condition) \<in> set rs. \<forall>a. condition (?e\<lparr>achievements := a\<rparr>) = condition e0"
        using rest by simp
      show "set (player_achievements ?e p) \<inter> fst ` set rs \<subseteq> set old"
        using Cons.prems(3) dist(2) by (auto simp: pa)
      show "set old \<subseteq> set (player_achievements ?e p)"
        using Cons.prems(4) by (auto simp: pa)
    qed
    from True nold cond ih show ?thesis
      by (simp add: unlocked_by_def pa r)
  next
    case False
    have ih: "fst (check_loop p rs e new) = new @ unlocked_by rs e0 old
       \<and> player_achievements (snd (check_loop p rs e new)) p
           = player_achievements e p @ map fst (unlocked_by rs e0 old)"
    proof (rule Cons.IH)
      show "distinct (map fst rs)" by (rule dist)
      show "\<forall>(name, desc, condition) \<in> set rs. \<forall>a. condition (e\<lparr>achievements := a\<rparr>) = condition e0"
        by (rule rest)
      show "set (player_achievements e p) \<inter> fst ` set rs \<subseteq> set old"
        using Cons.prems(3) by auto
      show "set old \<subseteq> set (player_achievements e p)" by (rule Cons.prems(4))
    qed
    have skip: "check_loop p (r # rs) e new = check_loop p rs e new"
      using False by (auto simp: r split: option.splits bool.splits)
    have "name \<in> set old \<or> condition e0 \<noteq> Some True"
      using False cond Cons.prems(3) r by auto
    then have "unlocked_by (r # rs) e0 old = unlocked_by rs e0 old"
      by (auto simp: unlocked_by_def r)
    with skip ih show ?thesis by simp
  qed
qed

lemma achievement_list_names:
  "map fst (achievement_list p att score t) =
     [''First Blood'', ''Speed Demon'', ''Mind Reader'', ''Perfectionist'', ''Champion'',
      ''Lightning Fast'', ''Show Off'']"
  by (simp add: achievement_list_def)

lemma achievement_list_distinct: "distinct (map fst (achievement_list p att score t))"
  by (simp add: achievement_list_names)

text \<open>
  Claim C8. \<open>check_achievements\<close> keeps every achievement the player held, in place, and
  appends the newly unlocked ones: exactly the rules of the list, in the list's order,
  that the player did not hold and whose condition is true. A condition that raises
  (\<open>None\<close>) unlocks nothing and the call still returns: for a player with no statistics
  record neither First Blood nor Champion is granted.
\<close>

theorem check_achievements_monotonic:
  fixes p att score t e
  defines "old \<equiv> player_achievements e p"
    and "new \<equiv> fst (check_achievements p att score t e)"
    and "e' \<equiv> snd (check_achievements p att score t e)"
  shows "player_achievements e' p = old @ map fst new
    \<and> set old \<subseteq> set (player_achievements e' p)
    \<and> new = map (\<lambda>(name, desc, condition). (name, desc))
              (filter (\<lambda>(name, desc, condition). name \<notin> set old \<and> condition e = Some True)
                 (achievement_list p att score t))
    \<and> (stats e p = None \<longrightarrow> ''First Blood'' \<notin> fst ` set new \<and> ''Champion'' \<notin> fst ` set new)"
proof -
  let ?e0 = "if achievements e p = None then e\<lparr>achievements := (achievements e)(p \<mapsto> [])\<rparr> else e"
  have pa0: "player_achievements ?e0 p = old"
    by (auto simp: player_achievements_def old_def)
  have cond0: "\<forall>(name, desc, condition) \<in> set (achievement_list p att score t).
      \<forall>a. condition (?e0\<lparr>achievements := a\<rparr>) = condition e"
    by (simp add: achievement_list_def)
  have main: "fst (check_loop p (achievement_list p att score t) ?e0 [])
           = [] @ unlocked_by (achievement_list p att score t) e old
       \<and> player_achievements (snd (check_loop p (achievement_list p att score t) ?e0 [])) p
           = player_achievements ?e0 p @ map fst (unlocked_by (achievement_list p att score t) e old)"
    by (rule check_loop_spec [OF achievement_list_distinct cond0]) (simp_all only: pa0, auto)
  have new: "new = unlocked_by (achievement_list p att score t) e old"
    using main by (simp add: new_def check_achievements_def check_rules_def Let_def)
  have pa: "player_achievements e' p = old @ map fst new"
    using main pa0 new by (simp add: e'_def check_achievements_def check_rules_def Let_def)
  have none: "stats e p = None \<longrightarrow> ''First Blood'' \<notin> fst ` set new \<and> ''Champion'' \<notin> fst ` set new"
    by (auto simp: new unlocked_by_def achievement_list_def)
  from new pa none show ?thesis by (simp add: unlocked_by_def)
qed

theorem check_achievements_monotonic_witness:
  "fst (check_achievements ''alice'' 1 160 5 engine_speedy)
     = [(''Mind Reader'', ''Guess correctly in 1 attempt''),
        (''Perfectionist'', ''Score over 150 points''),
        (''Lightning Fast'', ''Win in under 5 attempts'')]
   \<and> player_achievements (snd (check_achievements ''alice'' 1 160 5 engine_speedy)) ''alice''
     = [''Speed Demon'', ''Mind Reader'', ''Perfectionist'', ''Lightning Fast'']"
  using check_achievements_monotonic [of "''alice''" 1 160 5 engine_speedy]
  by (simp add: achievement_list_def engine_speedy_def engine0_def player_achievements_def)

section \<open>Rounds played\<close>





section \<open>Valid guesses\<close>


lemma give_hint_keeps [simp]:
  "attempts (snd (give_hint s r)) = attempts r"
  "secret_number (snd (give_hint s r)) = secret_number r"
  "closest_distance (snd (give_hint s r)) = closest_distance r"
  "active (snd (give_hint s r)) = active r"
  by (simp_all add: give_hint_def split: list.splits)






section \<open>Hints\<close>





end
